theory Spec2Isabelle
  imports Complex_Main "HOL-Library.Word" "HOL-Library.Log_Nat"
begin

unbundle bit_operations_syntax

section \<open>The message cache (internal/storage/store.go)\<close>

text \<open>
  The cache is a SQLite database with three tables. A table is modelled as the list of
  its rows in insertion order; a Go \<open>string\<close> is a byte string, a \<open>time.Time\<close> is an
  integer instant (seconds), a \<open>[]byte\<close> is a list of bytes and \<open>uint64\<close> a 64-bit
  word. A column that SQL may hold \<open>NULL\<close> in (\<open>chats.name\<close>,
  \<open>chats.last_message_time\<close>) is an option. The message columns are only ever written
  from Go values, which are never \<open>NULL\<close>.

  The engine is modelled as far as the statements of the source determine it: primary
  keys, \<open>INSERT OR REPLACE\<close>, \<open>ON CONFLICT DO UPDATE\<close>, and the foreign key
  \<open>messages.chat_jid REFERENCES chats(jid)\<close>, which the connection string
  \<open>_foreign_keys=on\<close> makes the engine enforce. Failures of the engine itself (I/O,
  locking) are modelled only for \<open>Reset\<close>, whose callers branch on them.
\<close>

type_synonym byte = "8 word"

record chat_row =
  jid :: string
  name :: "string option"
  last_message_time :: "int option"

record message_row =
  msg_id :: string
  chat_jid :: string
  sender :: string
  content :: string
  timestamp :: int
  is_from_me :: bool
  media_type :: string
  filename :: string
  url :: string
  media_key :: "byte list"
  file_sha256 :: "byte list"
  file_enc_sha256 :: "byte list"
  file_length :: "64 word"

record alias_row =
  alias_id :: string
  canonical_id :: string
  updated_at :: int

record store =
  chats :: "chat_row list"
  messages :: "message_row list"
  sender_id_aliases :: "alias_row list"

datatype store_error =
  ForeignKeyFailed
  | UniqueFailed
  | EngineFailed string

definition empty_store :: store where
  "empty_store = \<lparr>chats = [], messages = [], sender_id_aliases = []\<rparr>"

text \<open>\<open>SELECT ... FROM chats WHERE jid = ?\<close>: the row of a chat, if there is one.\<close>

definition chat_lookup :: "string \<Rightarrow> store \<Rightarrow> chat_row option" where
  "chat_lookup j s = find (\<lambda>c. jid c = j) (chats s)"

definition chat_exists :: "string \<Rightarrow> store \<Rightarrow> bool" where
  "chat_exists j s = (j \<in> set (map jid (chats s)))"

text \<open>
  \<open>StoreChat\<close>: \<open>INSERT OR REPLACE INTO chats (jid, name, last_message_time) VALUES (?, ?, ?)\<close>.
  \<open>REPLACE\<close> deletes the row that holds the primary key and inserts the new one; no
  column of the old row survives.
\<close>

definition StoreChat :: "string \<Rightarrow> string \<Rightarrow> int \<Rightarrow> store \<Rightarrow> store_error option \<times> store" where
  "StoreChat j n t s =
     (None, s\<lparr>chats := filter (\<lambda>c. jid c \<noteq> j) (chats s)
                 @ [\<lparr>jid = j, name = Some n, last_message_time = Some t\<rparr>]\<rparr>)"

text \<open>A sequence of \<open>StoreChat\<close> calls on one chat id, each with its name and time.\<close>

fun StoreChat_seq :: "string \<Rightarrow> (string \<times> int) list \<Rightarrow> store \<Rightarrow> store" where
  "StoreChat_seq j [] s = s"
| "StoreChat_seq j ((n, t) # calls) s = StoreChat_seq j calls (snd (StoreChat j n t s))"

definition chat_time :: "string \<Rightarrow> store \<Rightarrow> int option" where
  "chat_time j s = (case chat_lookup j s of None \<Rightarrow> None | Some c \<Rightarrow> last_message_time c)"

definition chat_name :: "string \<Rightarrow> store \<Rightarrow> string option" where
  "chat_name j s = (case chat_lookup j s of None \<Rightarrow> None | Some c \<Rightarrow> name c)"

text \<open>
  \<open>normalizeSenderID\<close>: trim surrounding white space, then keep what stands before the
  first \<open>@\<close>. \<open>strings.TrimSpace\<close> is modelled on the ASCII white space characters
  (tab, line feed, vertical tab, form feed, carriage return, space).
\<close>

definition is_space :: "char \<Rightarrow> bool" where
  "is_space c = (c \<in> set [CHR 0x09, CHR 0x0A, CHR 0x0B, CHR 0x0C, CHR 0x0D, CHR '' ''])"

definition TrimSpace :: "string \<Rightarrow> string" where
  "TrimSpace x = rev (dropWhile is_space (rev (dropWhile is_space x)))"

definition normalizeSenderID :: "string \<Rightarrow> string" where
  "normalizeSenderID x =
     (let normalized = TrimSpace x in
      if normalized = [] then []
      else if CHR ''@'' \<in> set normalized then takeWhile (\<lambda>c. c \<noteq> CHR ''@'') normalized
      else normalized)"

text \<open>
  \<open>StoreSenderAliases\<close>. The Go map \<open>unique\<close> holds the canonical id and every alias
  that does not normalise to the empty string; one upsert runs per key. Go iterates a
  map in no fixed order; the model takes the keys in order of first occurrence.
\<close>

definition upsert_alias :: "string \<Rightarrow> string \<Rightarrow> int \<Rightarrow> alias_row list \<Rightarrow> alias_row list" where
  "upsert_alias a c t rows =
     (if a \<in> set (map alias_id rows)
      then map (\<lambda>r. if alias_id r = a
                     then r\<lparr>canonical_id := c,
                            updated_at := (if t > updated_at r then t else updated_at r)\<rparr>
                     else r) rows
      else rows @ [\<lparr>alias_id = a, canonical_id = c, updated_at = t\<rparr>])"

definition StoreSenderAliases ::
  "string \<Rightarrow> string list \<Rightarrow> int \<Rightarrow> store \<Rightarrow> store_error option \<times> store" where
  "StoreSenderAliases canonicalID aliases updatedAt s =
     (let canonical = normalizeSenderID canonicalID in
      if canonical = [] then (None, s)
      else
        let unique = remdups (canonical # filter (\<lambda>a. a \<noteq> []) (map normalizeSenderID aliases))
        in (None, s\<lparr>sender_id_aliases :=
                      foldl (\<lambda>rows a. upsert_alias a canonical updatedAt rows)
                        (sender_id_aliases s) unique\<rparr>))"

text \<open>
  \<open>PromoteCanonicalSender\<close>:
  \<open>UPDATE messages SET sender = ? WHERE sender IN (...)\<close> over the normalised aliases
  that are neither empty nor the canonical id. Nothing runs when the canonical id
  normalises to the empty string, or when no alias is left.
\<close>

definition PromoteCanonicalSender ::
  "string \<Rightarrow> string list \<Rightarrow> store \<Rightarrow> store_error option \<times> store" where
  "PromoteCanonicalSender canonicalID aliases s =
     (let canonical = normalizeSenderID canonicalID in
      if canonical = [] then (None, s)
      else
        let promoteFrom = remdups (filter (\<lambda>a. a \<noteq> [] \<and> a \<noteq> canonical)
                                     (map normalizeSenderID aliases))
        in if promoteFrom = [] then (None, s)
           else (None, s\<lparr>messages :=
                   map (\<lambda>m. if sender m \<in> set promoteFrom then m\<lparr>sender := canonical\<rparr> else m)
                     (messages s)\<rparr>))"

text \<open>
  \<open>StoreMessage\<close>. The Go function takes the thirteen columns as arguments; the model
  takes them as one row. A row with empty content and empty media type is dropped
  before the statement runs. \<open>INSERT OR REPLACE\<close> resolves a clash on the primary key
  \<open>(id, chat_jid)\<close> by deleting the old row; the foreign key is not a conflict it
  resolves, so a row whose chat has no \<open>chats\<close> row fails the statement.
\<close>

definition same_key :: "message_row \<Rightarrow> message_row \<Rightarrow> bool" where
  "same_key a b = (msg_id a = msg_id b \<and> chat_jid a = chat_jid b)"

definition StoreMessage :: "message_row \<Rightarrow> store \<Rightarrow> store_error option \<times> store" where
  "StoreMessage r s =
     (if content r = [] \<and> media_type r = [] then (None, s)
      else if \<not> chat_exists (chat_jid r) s then (Some ForeignKeyFailed, s)
      else (None, s\<lparr>messages := filter (\<lambda>m. \<not> same_key m r) (messages s) @ [r]\<rparr>))"


text \<open>
  \<open>StoreMediaInfo\<close>:
  \<open>UPDATE messages SET url = ?, media_key = ?, file_sha256 = ?, file_enc_sha256 = ?,
  file_length = ? WHERE id = ? AND chat_jid = ?\<close>.
\<close>

definition StoreMediaInfo ::
  "string \<Rightarrow> string \<Rightarrow> string \<Rightarrow> byte list \<Rightarrow> byte list \<Rightarrow> byte list \<Rightarrow> 64 word \<Rightarrow> store
     \<Rightarrow> store_error option \<times> store" where
  "StoreMediaInfo i c u k sha enc len s =
     (None, s\<lparr>messages :=
        map (\<lambda>m. if msg_id m = i \<and> chat_jid m = c
                  then m\<lparr>url := u, media_key := k, file_sha256 := sha,
                         file_enc_sha256 := enc, file_length := len\<rparr>
                  else m) (messages s)\<rparr>)"

text \<open>
  \<open>PromoteCanonicalChat\<close>. One transaction; for every alias that is neither empty nor
  the canonical id, three statements: copy the alias's chat row to the canonical id
  (merging name and latest time when the canonical row exists), move the alias's
  messages to the canonical id, delete the alias's chat row. A statement that fails
  rolls the transaction back, so the store is left as it was. The \<open>UPDATE\<close> fails when
  a moved row would repeat a primary key, or would refer to a chat that has no row.
\<close>

definition merge_chat :: "chat_row \<Rightarrow> chat_row \<Rightarrow> chat_row" where
  "merge_chat old excluded =
     old\<lparr>name := (if name old \<noteq> None \<and> name old \<noteq> Some [] then name old else name excluded),
         last_message_time :=
           (case last_message_time old of
              None \<Rightarrow> last_message_time excluded
            | Some x \<Rightarrow>
                (case last_message_time excluded of
                   None \<Rightarrow> Some x
                 | Some y \<Rightarrow> if y > x then Some y else Some x))\<rparr>"

definition copy_chat_row :: "string \<Rightarrow> string \<Rightarrow> chat_row list \<Rightarrow> chat_row list" where
  "copy_chat_row canonical a cs =
     (case find (\<lambda>c. jid c = a) cs of
        None \<Rightarrow> cs
      | Some src \<Rightarrow>
          (if canonical \<in> set (map jid cs)
           then map (\<lambda>c. if jid c = canonical then merge_chat c src else c) cs
           else cs @ [\<lparr>jid = canonical, name = name src,
                       last_message_time = last_message_time src\<rparr>]))"

definition promote_chat_step :: "string \<Rightarrow> string \<Rightarrow> store \<Rightarrow> store_error + store" where
  "promote_chat_step canonical a s =
     (let cs = copy_chat_row canonical a (chats s);
          moved = filter (\<lambda>m. chat_jid m = a) (messages s);
          there = filter (\<lambda>m. chat_jid m = canonical) (messages s)
      in if \<not> distinct (map msg_id moved)
            \<or> list_ex (\<lambda>m. msg_id m \<in> set (map msg_id there)) moved
         then Inl UniqueFailed
         else if moved \<noteq> [] \<and> canonical \<notin> set (map jid cs) then Inl ForeignKeyFailed
         else Inr (s\<lparr>chats := filter (\<lambda>c. jid c \<noteq> a) cs,
                      messages := map (\<lambda>m. if chat_jid m = a then m\<lparr>chat_jid := canonical\<rparr> else m)
                                    (messages s)\<rparr>))"

fun promote_chat_steps :: "string \<Rightarrow> string list \<Rightarrow> store \<Rightarrow> store_error + store" where
  "promote_chat_steps canonical [] s = Inr s"
| "promote_chat_steps canonical (a # as) s =
     (case promote_chat_step canonical a s of
        Inl e \<Rightarrow> Inl e
      | Inr s' \<Rightarrow> promote_chat_steps canonical as s')"

definition PromoteCanonicalChat ::
  "string \<Rightarrow> string list \<Rightarrow> store \<Rightarrow> store_error option \<times> store" where
  "PromoteCanonicalChat canonicalID aliases s =
     (let canonical = normalizeSenderID canonicalID in
      if canonical = [] then (None, s)
      else
        let unique = remdups (filter (\<lambda>a. a \<noteq> [] \<and> a \<noteq> canonical)
                                (map normalizeSenderID aliases))
        in if unique = [] then (None, s)
           else (case promote_chat_steps canonical unique s of
                   Inl e \<Rightarrow> (Some e, s)
                 | Inr s' \<Rightarrow> (None, s')))"

text \<open>
  \<open>Reset\<close>: one transaction that runs \<open>DELETE FROM messages\<close>, \<open>DELETE FROM chats\<close>,
  \<open>DELETE FROM sender_id_aliases\<close>. The engine may fail at \<open>Begin\<close>, at the statement
  with a given index, or at \<open>Commit\<close>; a failure leaves the store as it was. The error
  carries the message the Go code builds.
\<close>

datatype engine_fault =
  BeginFails string
  | ExecFails nat string
  | CommitFails string

definition reset_statements :: "(store \<Rightarrow> store) list" where
  "reset_statements =
     [\<lambda>s. s\<lparr>messages := []\<rparr>, \<lambda>s. s\<lparr>chats := []\<rparr>, \<lambda>s. s\<lparr>sender_id_aliases := []\<rparr>]"

fun exec_statements ::
  "nat \<Rightarrow> engine_fault option \<Rightarrow> (store \<Rightarrow> store) list \<Rightarrow> store \<Rightarrow> string + store" where
  "exec_statements k f [] s = Inr s"
| "exec_statements k f (st # sts) s =
     (case f of
        Some (ExecFails j e) \<Rightarrow>
          if j = k then Inl e else exec_statements (Suc k) f sts (st s)
      | _ \<Rightarrow> exec_statements (Suc k) f sts (st s))"

definition Reset :: "engine_fault option \<Rightarrow> store \<Rightarrow> string option \<times> store" where
  "Reset f s =
     (case f of
        Some (BeginFails e) \<Rightarrow> (Some (''failed to start reset transaction: '' @ e), s)
      | _ \<Rightarrow>
          (case exec_statements 0 f reset_statements s of
             Inl e \<Rightarrow> (Some (''failed to reset message store: '' @ e), s)
           | Inr s' \<Rightarrow>
               (case f of
                  Some (CommitFails e) \<Rightarrow> (Some (''failed to commit reset transaction: '' @ e), s)
                | _ \<Rightarrow> (None, s'))))"

text \<open>The operations that write to the cache, and a run of them on a store.\<close>

datatype store_op =
  OpStoreChat string string int
  | OpStoreSenderAliases string "string list" int
  | OpPromoteCanonicalSender string "string list"
  | OpPromoteCanonicalChat string "string list"
  | OpStoreMessage message_row
  | OpStoreMediaInfo string string string "byte list" "byte list" "byte list" "64 word"
  | OpReset "engine_fault option"

fun apply_op :: "store_op \<Rightarrow> store \<Rightarrow> store" where
  "apply_op (OpStoreChat j n t) s = snd (StoreChat j n t s)"
| "apply_op (OpStoreSenderAliases c as t) s = snd (StoreSenderAliases c as t s)"
| "apply_op (OpPromoteCanonicalSender c as) s = snd (PromoteCanonicalSender c as s)"
| "apply_op (OpPromoteCanonicalChat c as) s = snd (PromoteCanonicalChat c as s)"
| "apply_op (OpStoreMessage r) s = snd (StoreMessage r s)"
| "apply_op (OpStoreMediaInfo i c u k sha enc len) s = snd (StoreMediaInfo i c u k sha enc len s)"
| "apply_op (OpReset f) s = snd (Reset f s)"

fun run_ops :: "store_op list \<Rightarrow> store \<Rightarrow> store" where
  "run_ops [] s = s"
| "run_ops (x # xs) s = run_ops xs (apply_op x s)"

definition payload_nonempty :: "message_row \<Rightarrow> bool" where
  "payload_nonempty m = (content m \<noteq> [] \<or> media_type m \<noteq> [])"

section \<open>Identifiers (the identity resolver)\<close>

text \<open>
  \<open>types.JID\<close> is the protocol library's identifier: a user part, an agent, a device, an
  integrator and a server. The library's methods the code calls are modelled after
  the library: \<open>ToNonAD\<close> keeps user, server and integrator; \<open>IsEmpty\<close> holds when the
  server is empty; \<open>String\<close> renders \<open>user.agent:device@server\<close> when the agent is set,
  \<open>user:device@server\<close> when the device is set, \<open>user@server\<close> when the user part is not
  empty, and the server alone otherwise.
\<close>

record JID =
  User :: string
  RawAgent :: "8 word"
  Device :: "16 word"
  Integrator :: "16 word"
  Server :: string

definition empty_JID :: JID where
  "empty_JID = \<lparr>User = [], RawAgent = 0, Device = 0, Integrator = 0, Server = []\<rparr>"

definition DefaultUserServer :: string where
  "DefaultUserServer = ''s.whatsapp.net''"

definition HiddenUserServer :: string where
  "HiddenUserServer = ''lid''"

definition ToNonAD :: "JID \<Rightarrow> JID" where
  "ToNonAD j = \<lparr>User = User j, RawAgent = 0, Device = 0, Integrator = Integrator j,
                Server = Server j\<rparr>"

definition IsEmpty :: "JID \<Rightarrow> bool" where
  "IsEmpty j = (Server j = [])"

fun show_nat :: "nat \<Rightarrow> string" where
  "show_nat n =
     (if n < 10 then [char_of (48 + n)]
      else show_nat (n div 10) @ [char_of (48 + n mod 10)])"

definition JID_String :: "JID \<Rightarrow> string" where
  "JID_String j =
     (if RawAgent j > 0
      then User j @ ''.'' @ show_nat (unat (RawAgent j)) @ '':'' @ show_nat (unat (Device j))
             @ ''@'' @ Server j
      else if Device j > 0
      then User j @ '':'' @ show_nat (unat (Device j)) @ ''@'' @ Server j
      else if User j \<noteq> [] then User j @ ''@'' @ Server j
      else Server j)"

text \<open>
  The client, as the resolver and the event handlers use it: the library's index
  between the two address spaces (\<open>None\<close> when the client, its store or the index is
  nil; a lookup gives \<open>None\<close> when it returns an error), the device identity, the
  contact store (the full name of a contact that is found) and the group information
  (the name of a group that is found). The handlers are attached to a client that is
  not nil and has a store.
\<close>

record lid_index =
  GetPNForLID :: "JID \<Rightarrow> JID option"
  GetLIDForPN :: "JID \<Rightarrow> JID option"

record client =
  LIDs :: "lid_index option"
  StoreID :: "JID option"
  GetContact :: "JID \<Rightarrow> string option"
  GetGroupInfo :: "JID \<Rightarrow> string option"

text \<open>
  \<open>senderAliasIDs\<close> collects the ids in a Go map and returns its keys; the model keeps
  them in order of first insertion.
\<close>

definition add_id :: "string \<Rightarrow> string list \<Rightarrow> string list" where
  "add_id x ids =
     (let normalized = normalizeSenderID x in
      if normalized \<noteq> [] \<and> normalized \<notin> set ids then ids @ [normalized] else ids)"

definition add_counterpart :: "lid_index \<Rightarrow> JID \<Rightarrow> string list \<Rightarrow> string list" where
  "add_counterpart l j ids =
     (if Server j = HiddenUserServer
      then (case GetPNForLID l j of
              Some pn \<Rightarrow> if \<not> IsEmpty pn then add_id (User pn) ids else ids
            | None \<Rightarrow> ids)
      else if Server j = DefaultUserServer
      then (case GetLIDForPN l j of
              Some lid \<Rightarrow> if \<not> IsEmpty lid then add_id (User lid) ids else ids
            | None \<Rightarrow> ids)
      else ids)"

definition senderAliasIDs :: "client \<Rightarrow> JID \<Rightarrow> JID \<Rightarrow> string \<Rightarrow> string list" where
  "senderAliasIDs c senderJID0 senderAlt0 canonicalID =
     (let senderJID = ToNonAD senderJID0;
          senderAlt = ToNonAD senderAlt0;
          ids = add_id (User senderAlt) (add_id (User senderJID) (add_id canonicalID []))
      in case LIDs c of
           None \<Rightarrow> ids
         | Some l \<Rightarrow> add_counterpart l senderAlt (add_counterpart l senderJID ids))"

definition canonicalizeSender :: "client \<Rightarrow> JID \<Rightarrow> JID \<Rightarrow> string" where
  "canonicalizeSender c senderJID0 senderAlt0 =
     (let senderJID = ToNonAD senderJID0;
          senderAlt = ToNonAD senderAlt0
      in if IsEmpty senderJID then []
         else
           let canonical = (if \<not> IsEmpty senderAlt \<and> Server senderAlt = DefaultUserServer
                            then senderAlt else senderJID);
               canonical' =
                 (if Server canonical = HiddenUserServer
                  then (case LIDs c of
                          None \<Rightarrow> canonical
                        | Some l \<Rightarrow>
                            (case GetPNForLID l canonical of
                               Some pn \<Rightarrow> if \<not> IsEmpty pn then ToNonAD pn else canonical
                             | None \<Rightarrow> canonical))
                  else canonical)
           in if User canonical' \<noteq> [] then User canonical' else User senderJID)"

definition canonicalizeChatID :: "client \<Rightarrow> JID \<Rightarrow> string" where
  "canonicalizeChatID c chatJID =
     (let normalized = ToNonAD chatJID in
      if IsEmpty normalized then []
      else if Server normalized = ''g.us'' then JID_String normalized
      else canonicalizeSender c normalized empty_JID)"

definition chatAliasIDs :: "client \<Rightarrow> JID \<Rightarrow> string \<Rightarrow> string list" where
  "chatAliasIDs c chatJID canonicalChatID =
     (let normalized = ToNonAD chatJID in
      if IsEmpty normalized \<or> Server normalized = ''g.us'' then []
      else senderAliasIDs c normalized empty_JID canonicalChatID)"

section \<open>Live messages (internal/whatsapp/messaging.go, sync.go)\<close>

text \<open>
  A protobuf message, as the handlers read it: the plain conversation text
  (\<open>GetConversation\<close>, empty when unset), the extended text (\<open>None\<close> when the
  sub-message is nil) and the four media sub-messages. A document carries its file
  name as well.
\<close>

record media_message =
  URL :: string
  MediaKey :: "byte list"
  FileSHA256 :: "byte list"
  FileEncSHA256 :: "byte list"
  FileLength :: "64 word"

record proto_message =
  Conversation :: string
  ExtendedTextMessage :: "string option"
  ImageMessage :: "media_message option"
  VideoMessage :: "media_message option"
  AudioMessage :: "media_message option"
  DocumentMessage :: "(string \<times> media_message) option"

record message_info =
  Chat :: JID
  Sender :: JID
  SenderAlt :: JID
  ID :: string
  Timestamp :: int
  IsFromMe :: bool

record message_event =
  Info :: message_info
  Msg :: "proto_message option"

definition extractTextContent :: "proto_message option \<Rightarrow> string" where
  "extractTextContent msg =
     (case msg of
        None \<Rightarrow> []
      | Some m \<Rightarrow>
          if Conversation m \<noteq> [] then Conversation m
          else (case ExtendedTextMessage m of Some txt \<Rightarrow> txt | None \<Rightarrow> []))"

type_synonym media_info =
  "string \<times> string \<times> string \<times> byte list \<times> byte list \<times> byte list \<times> 64 word"

definition media_fields :: "string \<Rightarrow> string \<Rightarrow> media_message \<Rightarrow> media_info" where
  "media_fields kind fname m =
     (kind, fname, URL m, MediaKey m, FileSHA256 m, FileEncSHA256 m, FileLength m)"

text \<open>
  \<open>extractMediaInfo\<close>. The generated file names carry the current time, formatted as
  \<open>20060102_150405\<close>; the model takes that stamp as an argument.
\<close>

definition extractMediaInfo :: "string \<Rightarrow> proto_message option \<Rightarrow> media_info" where
  "extractMediaInfo now msg =
     (case msg of
        None \<Rightarrow> ([], [], [], [], [], [], 0)
      | Some m \<Rightarrow>
          (case ImageMessage m of
             Some img \<Rightarrow> media_fields ''image'' (''image_'' @ now @ ''.jpg'') img
           | None \<Rightarrow>
          (case VideoMessage m of
             Some vid \<Rightarrow> media_fields ''video'' (''video_'' @ now @ ''.mp4'') vid
           | None \<Rightarrow>
          (case AudioMessage m of
             Some aud \<Rightarrow> media_fields ''audio'' (''audio_'' @ now @ ''.ogg'') aud
           | None \<Rightarrow>
          (case DocumentMessage m of
             Some (fname, doc) \<Rightarrow>
               media_fields ''document''
                 (if fname = [] then ''document_'' @ now else fname) doc
           | None \<Rightarrow> ([], [], [], [], [], [], 0))))))"

text \<open>
  \<open>getChatName\<close>. The stored name is used when the query returns a row whose name is
  neither \<open>NULL\<close> nor empty. The conversation of a history batch is inspected for its
  \<open>DisplayName\<close> and \<open>Name\<close> fields; a live message passes none.
\<close>

record conversation_names =
  DisplayName :: "string option"
  ConvName :: "string option"

definition resolve_chat_name ::
  "client \<Rightarrow> JID \<Rightarrow> conversation_names option \<Rightarrow> string \<Rightarrow> string" where
  "resolve_chat_name c j conversation sender_id =
     (if Server j = ''g.us''
      then
        (let from_conv =
               (case conversation of
                  None \<Rightarrow> []
                | Some cv \<Rightarrow>
                    (case DisplayName cv of
                       Some dn \<Rightarrow>
                         if dn \<noteq> [] then dn
                         else (case ConvName cv of Some n \<Rightarrow> n | None \<Rightarrow> [])
                     | None \<Rightarrow> (case ConvName cv of Some n \<Rightarrow> n | None \<Rightarrow> [])))
         in if from_conv \<noteq> [] then from_conv
            else (case GetGroupInfo c j of
                    Some n \<Rightarrow> if n \<noteq> [] then n else ''Group '' @ User j
                  | None \<Rightarrow> ''Group '' @ User j))
      else
        (case GetContact c j of
           Some full \<Rightarrow>
             if full \<noteq> [] then full
             else if sender_id \<noteq> [] then sender_id else User j
         | None \<Rightarrow> if sender_id \<noteq> [] then sender_id else User j))"

definition getChatName ::
  "client \<Rightarrow> store \<Rightarrow> JID \<Rightarrow> string \<Rightarrow> conversation_names option \<Rightarrow> string \<Rightarrow> string" where
  "getChatName c s j chatJID conversation sender_id =
     (case chat_name chatJID s of
        Some existingName \<Rightarrow>
          if existingName \<noteq> [] then existingName
          else resolve_chat_name c j conversation sender_id
      | None \<Rightarrow> resolve_chat_name c j conversation sender_id)"

text \<open>
  \<open>syncSenderAliases\<close> and \<open>syncChatAliases\<close> log the errors of the two store calls and
  go on; \<open>handleMessage\<close> does the same with \<open>StoreChat\<close> and \<open>StoreMessage\<close>.
\<close>

definition syncSenderAliases :: "string \<Rightarrow> string list \<Rightarrow> int \<Rightarrow> store \<Rightarrow> store" where
  "syncSenderAliases canonicalID aliases ts s =
     snd (PromoteCanonicalSender canonicalID aliases
            (snd (StoreSenderAliases canonicalID aliases ts s)))"

definition syncChatAliases :: "string \<Rightarrow> string list \<Rightarrow> int \<Rightarrow> store \<Rightarrow> store" where
  "syncChatAliases canonicalID aliases ts s =
     snd (PromoteCanonicalChat canonicalID aliases
            (snd (StoreSenderAliases canonicalID aliases ts s)))"

definition handleMessage :: "client \<Rightarrow> string \<Rightarrow> message_event \<Rightarrow> store \<Rightarrow> store" where
  "handleMessage c now ev s =
     (let info = Info ev;
          chatJID = ToNonAD (Chat info);
          chatID = canonicalizeChatID c chatJID;
          sender_id = canonicalizeSender c (Sender info) (SenderAlt info);
          chatName = getChatName c s chatJID chatID None sender_id;
          s1 = snd (StoreChat chatID chatName (Timestamp info) s);
          txt = extractTextContent (Msg ev)
      in case extractMediaInfo now (Msg ev) of
           (mediaType, fname, u, mediaKey, sha, enc, len) \<Rightarrow>
             if txt = [] \<and> mediaType = [] then s1
             else
               let aliasIDs = senderAliasIDs c (Sender info) (SenderAlt info) sender_id;
                   s2 = syncSenderAliases sender_id aliasIDs (Timestamp info) s1;
                   s3 = (if Server chatJID \<noteq> ''g.us''
                         then syncChatAliases chatID (chatAliasIDs c chatJID chatID)
                                (Timestamp info) s2
                         else s2)
               in snd (StoreMessage
                         \<lparr>msg_id = ID info, chat_jid = chatID, sender = sender_id,
                          content = txt, timestamp = Timestamp info,
                          is_from_me = IsFromMe info, media_type = mediaType,
                          filename = fname, url = u, media_key = mediaKey,
                          file_sha256 = sha, file_enc_sha256 = enc, file_length = len\<rparr>
                         s3))"

section \<open>The published session status (bootstrap)\<close>












section \<open>Binary floating point\<close>


definition ilog2 :: "rat \<Rightarrow> int" where
  "ilog2 q =
     (case quotient_of q of
        (a, b) \<Rightarrow> let e0 = bitlen a - bitlen b in if 2 powi e0 \<le> q then e0 else e0 - 1)"



section \<open>History sync (internal/whatsapp/sync.go)\<close>

text \<open>
  A history batch is a list of conversations, each with its id, its name fields and
  its messages, newest first. An entry of the message list is \<open>None\<close> when the entry or
  the message in it is nil. \<open>GetMessageTimestamp\<close> is 0 when the time is unset;
  \<open>time.Unix(int64(ts), 0)\<close> reads the unsigned time as a signed one. \<open>ParseJID\<close> is the
  library's parser, an argument of the model. The clock that names media files is
  read as one stamp for the batch.
\<close>

record message_key =
  FromMe :: "bool option"
  Participant :: "string option"
  KeyID :: "string option"

record web_message_info =
  Key :: "message_key option"
  Payload :: "proto_message option"
  MessageTimestamp :: "64 word"

record conversation =
  ConvID :: "string option"
  Names :: conversation_names
  Messages :: "web_message_info option list"











section \<open>The control plane (internal/api/server.go)\<close>

subsection \<open>Routes and bearer tokens\<close>

















subsection \<open>Revoking the linked device\<close>














section \<open>Concrete stores, identifiers and events\<close>


definition no_alias_sender :: "string \<Rightarrow> string list \<Rightarrow> store \<Rightarrow> bool" where
  "no_alias_sender C A s =
     list_all (\<lambda>m. sender m \<notin> set (map normalizeSenderID A) - {normalizeSenderID C})
       (messages s)"

definition text_row :: "string \<Rightarrow> string \<Rightarrow> string \<Rightarrow> string \<Rightarrow> message_row" where
  "text_row i c from txt =
     \<lparr>msg_id = i, chat_jid = c, sender = from, content = txt, timestamp = 0,
      is_from_me = False, media_type = [], filename = [], url = [], media_key = [],
      file_sha256 = [], file_enc_sha256 = [], file_length = 0\<rparr>"

definition no_client :: client where
  "no_client =
     \<lparr>LIDs = None, StoreID = None, GetContact = (\<lambda>_. None), GetGroupInfo = (\<lambda>_. None)\<rparr>"

definition group_jid :: JID where
  "group_jid =
     \<lparr>User = ''120363'', RawAgent = 0, Device = 3, Integrator = 0, Server = ''g.us''\<rparr>"

definition contact_jid :: JID where
  "contact_jid =
     \<lparr>User = ''5551234567'', RawAgent = 0, Device = 0, Integrator = 0,
      Server = ''s.whatsapp.net''\<rparr>"

definition empty_event :: message_event where
  "empty_event =
     \<lparr>Info = \<lparr>Chat = contact_jid, Sender = contact_jid, SenderAlt = empty_JID, ID = ''m1'',
              Timestamp = 42, IsFromMe = False\<rparr>,
      Msg = None\<rparr>"












section \<open>Properties of the cache\<close>

declare show_nat.simps [simp del]

lemma find_replaced:
  "jid r = j \<Longrightarrow> find (\<lambda>c. jid c = j) (filter (\<lambda>c. jid c \<noteq> j) cs @ [r]) = Some r"
  by (induction cs) auto

lemma normalizeSenderID_empty: "normalizeSenderID [] = []"
  by (simp add: normalizeSenderID_def TrimSpace_def)

lemma normalizeSenderID_111: "normalizeSenderID ''111'' = ''111''"
  by (simp add: normalizeSenderID_def TrimSpace_def is_space_def)

lemma normalizeSenderID_5: "normalizeSenderID ''5'' = ''5''"
  by (simp add: normalizeSenderID_def TrimSpace_def is_space_def)

lemma normalizeSenderID_at_lid: "normalizeSenderID ''@lid'' = []"
  by (simp add: normalizeSenderID_def TrimSpace_def is_space_def)

subsection \<open>The latest message time of a chat\<close>

text \<open>
  Whatever the row held before, \<open>StoreChat\<close> leaves the time it was called with: the
  statement replaces the row. The merge that keeps the later of two times is written
  out in \<open>PromoteCanonicalChat\<close> and in the migration, not here.
\<close>

lemma StoreChat_last_write_wins: "chat_time j (snd (StoreChat j n t s)) = Some t"
  by (simp add: chat_time_def chat_lookup_def StoreChat_def find_replaced)

text \<open>
  Claim C1 says that under any sequence of \<open>StoreChat\<close> calls on one chat id the stored
  \<open>last_message_time\<close> never decreases. The code does not keep that: after a call with
  time 10, a call with time 5 on the same chat leaves 5.
\<close>

theorem StoreChat_time_regresses:
  "chat_time ''c'' (StoreChat_seq ''c'' [(''n'', 10)] empty_store) = Some 10
   \<and> chat_time ''c'' (StoreChat_seq ''c'' [(''n'', 10), (''n'', 5)] empty_store) = Some 5"
  by (simp add: chat_time_def chat_lookup_def StoreChat_def empty_store_def)

subsection \<open>Promoting sender aliases\<close>

text \<open>
  Claim C3, as amended: for every canonical id \<open>C\<close> whose normal form is not empty,
  every alias list \<open>A\<close> and time \<open>t\<close>, after \<open>StoreSenderAliases C A t\<close> and then
  \<open>PromoteCanonicalSender C A\<close> no row of \<open>messages\<close> has a non-empty sender among the
  normalised aliases other than the normalised \<open>C\<close>.
\<close>

theorem promote_sender_clears_aliases:
  assumes "normalizeSenderID C \<noteq> []"
  shows "list_all
           (\<lambda>m. sender m \<notin> set (map normalizeSenderID A) - {normalizeSenderID C, []})
           (messages (snd (PromoteCanonicalSender C A (snd (StoreSenderAliases C A t s)))))"
  using assms
  by (auto simp: PromoteCanonicalSender_def StoreSenderAliases_def Let_def
      list_all_iff filter_empty_conv)

text \<open>
  A witness for C3: canonical id \<open>5\<close>, aliases \<open>111\<close> and \<open>5\<close>, and one message sent by
  \<open>111\<close>; afterwards its sender is \<open>5\<close>.
\<close>

theorem promote_sender_clears_aliases_witness:
  "normalizeSenderID ''5'' \<noteq> []
   \<and> list_all
       (\<lambda>m. sender m \<notin> set (map normalizeSenderID [''111'', ''5'']) - {normalizeSenderID ''5'', []})
       (messages (snd (PromoteCanonicalSender ''5'' [''111'', ''5'']
          (snd (StoreSenderAliases ''5'' [''111'', ''5''] 7
             (empty_store\<lparr>messages := [text_row ''m1'' ''c'' ''111'' ''hi'']\<rparr>))))))
   \<and> map sender
       (messages (snd (PromoteCanonicalSender ''5'' [''111'', ''5'']
          (snd (StoreSenderAliases ''5'' [''111'', ''5''] 7
             (empty_store\<lparr>messages := [text_row ''m1'' ''c'' ''111'' ''hi'']\<rparr>)))))) = [''5'']"
  using promote_sender_clears_aliases [of "''5''" "[''111'', ''5'']" 7
      "empty_store\<lparr>messages := [text_row ''m1'' ''c'' ''111'' ''hi'']\<rparr>"]
  by (simp add: PromoteCanonicalSender_def StoreSenderAliases_def normalizeSenderID_111
      normalizeSenderID_5 text_row_def empty_store_def upsert_alias_def Let_def)

text \<open>
  The counterexample to C3 as stated. With the empty canonical id both calls return
  at once, and the message sent by the alias \<open>111\<close> stays. With canonical id \<open>5\<close> and the
  alias \<open>@lid\<close>, which normalises to the empty string, the alias is skipped and a
  message whose sender is the empty string stays.
\<close>

theorem promote_sender_counterexample:
  "\<not> no_alias_sender [] [''111'']
        (snd (PromoteCanonicalSender [] [''111'']
           (snd (StoreSenderAliases [] [''111''] 7
              (empty_store\<lparr>messages := [text_row ''m1'' ''c'' ''111'' ''hi'']\<rparr>)))))
   \<and> \<not> no_alias_sender ''5'' [''@lid'']
        (snd (PromoteCanonicalSender ''5'' [''@lid'']
           (snd (StoreSenderAliases ''5'' [''@lid''] 7
              (empty_store\<lparr>messages := [text_row ''m1'' ''c'' [] ''hi'']\<rparr>)))))"
  by (simp add: no_alias_sender_def PromoteCanonicalSender_def StoreSenderAliases_def
      normalizeSenderID_111 normalizeSenderID_at_lid normalizeSenderID_empty normalizeSenderID_5
      text_row_def empty_store_def upsert_alias_def Let_def)

subsection \<open>Rows with an empty payload\<close>

lemma promote_chat_step_payload:
  "promote_chat_step c a s = Inr s' \<Longrightarrow> list_all payload_nonempty (messages s)
     \<Longrightarrow> list_all payload_nonempty (messages s')"
  by (auto simp: promote_chat_step_def Let_def list_all_iff payload_nonempty_def
      split: if_splits)

lemma promote_chat_steps_payload:
  "promote_chat_steps c as s = Inr s' \<Longrightarrow> list_all payload_nonempty (messages s)
     \<Longrightarrow> list_all payload_nonempty (messages s')"
proof (induction as arbitrary: s)
  case Nil
  then show ?case by simp
next
  case (Cons a as)
  then show ?case by (auto split: sum.splits dest: promote_chat_step_payload)
qed

lemma apply_op_payload:
  assumes "list_all payload_nonempty (messages s)"
  shows "list_all payload_nonempty (messages (apply_op x s))"
proof (cases x)
  case (OpStoreChat j n t)
  with assms show ?thesis by (simp add: StoreChat_def)
next
  case (OpStoreSenderAliases c as t)
  with assms show ?thesis by (simp add: StoreSenderAliases_def Let_def)
next
  case (OpPromoteCanonicalSender c as)
  with assms show ?thesis
    by (auto simp: PromoteCanonicalSender_def Let_def list_all_iff payload_nonempty_def)
next
  case (OpPromoteCanonicalChat c as)
  with assms show ?thesis
    by (auto simp: PromoteCanonicalChat_def Let_def split: sum.splits
        dest: promote_chat_steps_payload)
next
  case (OpStoreMessage r)
  with assms show ?thesis
    by (auto simp: StoreMessage_def list_all_iff payload_nonempty_def)
next
  case (OpStoreMediaInfo i c u k sha enc len)
  with assms show ?thesis
    by (auto simp: StoreMediaInfo_def list_all_iff payload_nonempty_def)
next
  case (OpReset f)
  with assms show ?thesis
    by (auto simp: Reset_def reset_statements_def
        split: option.splits engine_fault.splits sum.splits if_splits)
qed

lemma run_ops_payload:
  "list_all payload_nonempty (messages s)
     \<Longrightarrow> list_all payload_nonempty (messages (run_ops ops s))"
  by (induction ops arbitrary: s) (auto intro: apply_op_payload)

text \<open>
  Claim C4: a call of \<open>StoreMessage\<close> with empty content and empty media type inserts
  and changes nothing; and after any run of the store's operations on a fresh
  database every row of \<open>messages\<close> has a non-empty content or a non-empty media type.
\<close>

theorem empty_payload_never_persisted:
  "(content r = [] \<and> media_type r = [] \<longrightarrow> StoreMessage r s = (None, s))
   \<and> list_all payload_nonempty (messages (run_ops ops empty_store))"
proof
  show "content r = [] \<and> media_type r = [] \<longrightarrow> StoreMessage r s = (None, s)"
    by (simp add: StoreMessage_def)
  have "list_all payload_nonempty (messages empty_store)"
    by (simp add: empty_store_def)
  then show "list_all payload_nonempty (messages (run_ops ops empty_store))"
    by (rule run_ops_payload)
qed

text \<open>
  A witness for C4: a chat is stored, then a row with an empty payload and a row with
  text; only the second row is in the table.
\<close>

theorem empty_payload_never_persisted_witness:
  "content (text_row ''m0'' ''c'' ''5'' []) = [] \<and> media_type (text_row ''m0'' ''c'' ''5'' []) = []
   \<and> StoreMessage (text_row ''m0'' ''c'' ''5'' []) (snd (StoreChat ''c'' ''n'' 1 empty_store))
       = (None, snd (StoreChat ''c'' ''n'' 1 empty_store))
   \<and> list_all payload_nonempty
       (messages (run_ops [OpStoreChat ''c'' ''n'' 1, OpStoreMessage (text_row ''m0'' ''c'' ''5'' []),
                           OpStoreMessage (text_row ''m1'' ''c'' ''5'' ''hi'')] empty_store))
   \<and> map msg_id
       (messages (run_ops [OpStoreChat ''c'' ''n'' 1, OpStoreMessage (text_row ''m0'' ''c'' ''5'' []),
                           OpStoreMessage (text_row ''m1'' ''c'' ''5'' ''hi'')] empty_store)) = [''m1'']"
  using empty_payload_never_persisted [of "text_row ''m0'' ''c'' ''5'' []"
      "snd (StoreChat ''c'' ''n'' 1 empty_store)"
      "[OpStoreChat ''c'' ''n'' 1, OpStoreMessage (text_row ''m0'' ''c'' ''5'' []),
        OpStoreMessage (text_row ''m1'' ''c'' ''5'' ''hi'')]"]
  by (simp add: text_row_def StoreMessage_def StoreChat_def empty_store_def chat_exists_def
      same_key_def)

subsection \<open>Storing a message twice\<close>








section \<open>Properties of the identity resolver and the live-message handler\<close>

text \<open>
  Claim C9: for a group identifier, \<open>canonicalizeChatID\<close> returns the identifier's own
  string form (the user part, \<open>@\<close>, \<open>g.us\<close>, for a user part \<open>G\<close> that is not empty: the
  string \<open>G@g.us\<close>), whatever device the identifier names and whatever the index
  holds; and \<open>chatAliasIDs\<close> returns no alias.
\<close>

theorem group_chat_id_unchanged:
  assumes "Server j = ''g.us''"
  shows "canonicalizeChatID c j = JID_String (ToNonAD j)
     \<and> (User j \<noteq> [] \<longrightarrow> canonicalizeChatID c j = User j @ ''@g.us'')
     \<and> chatAliasIDs c j canonicalChatID = []"
  using assms
  by (simp add: canonicalizeChatID_def chatAliasIDs_def ToNonAD_def IsEmpty_def JID_String_def)

text \<open>A witness for C9: the group \<open>120363@g.us\<close>, seen from device 3.\<close>

theorem group_chat_id_unchanged_witness:
  "Server group_jid = ''g.us'' \<and> User group_jid \<noteq> []
   \<and> canonicalizeChatID no_client group_jid = ''120363@g.us''
   \<and> chatAliasIDs no_client group_jid ''120363@g.us'' = []"
  using group_chat_id_unchanged [of group_jid no_client "''120363@g.us''"]
  by (simp add: group_jid_def JID_String_def ToNonAD_def)

text \<open>
  Claim C10: the live-message handler stores the chat before it looks at the payload.
  For a message with empty text and no media the handler does exactly one thing: it
  stores the chat row with the resolved name and the message's time. No row of
  \<open>messages\<close> and no row of \<open>sender_id_aliases\<close> is written, and the other chats are
  left as they were.
\<close>

theorem empty_live_message_updates_chat_only:
  assumes "extractTextContent (Msg ev) = []" and "fst (extractMediaInfo now (Msg ev)) = []"
    and "chatID = canonicalizeChatID c (ToNonAD (Chat (Info ev)))"
    and "nm = getChatName c s (ToNonAD (Chat (Info ev))) chatID None
                (canonicalizeSender c (Sender (Info ev)) (SenderAlt (Info ev)))"
  shows "handleMessage c now ev s = snd (StoreChat chatID nm (Timestamp (Info ev)) s)
     \<and> messages (handleMessage c now ev s) = messages s
     \<and> sender_id_aliases (handleMessage c now ev s) = sender_id_aliases s
     \<and> chat_lookup chatID (handleMessage c now ev s)
         = Some \<lparr>jid = chatID, name = Some nm, last_message_time = Some (Timestamp (Info ev))\<rparr>
     \<and> filter (\<lambda>r. jid r \<noteq> chatID) (chats (handleMessage c now ev s))
         = filter (\<lambda>r. jid r \<noteq> chatID) (chats s)"
proof -
  have h: "handleMessage c now ev s = snd (StoreChat chatID nm (Timestamp (Info ev)) s)"
    using assms by (auto simp: handleMessage_def Let_def split: prod.splits)
  have f: "find (\<lambda>r. jid r = chatID)
             (filter (\<lambda>r. jid r \<noteq> chatID) (chats s)
               @ [\<lparr>jid = chatID, name = Some nm, last_message_time = Some (Timestamp (Info ev))\<rparr>])
           = Some \<lparr>jid = chatID, name = Some nm, last_message_time = Some (Timestamp (Info ev))\<rparr>"
    by (simp add: find_replaced)
  show ?thesis unfolding h using f by (simp add: StoreChat_def chat_lookup_def)
qed

text \<open>
  A witness for C10: a message with no payload in a direct chat, on a fresh store.
  The chat row is created with the sender's id as its name; nothing else is written.
\<close>

theorem empty_live_message_updates_chat_only_witness:
  "extractTextContent (Msg empty_event) = []
   \<and> fst (extractMediaInfo ''20260101_000000'' (Msg empty_event)) = []
   \<and> canonicalizeChatID no_client (ToNonAD (Chat (Info empty_event))) = ''5551234567''
   \<and> getChatName no_client empty_store (ToNonAD (Chat (Info empty_event))) ''5551234567'' None
        (canonicalizeSender no_client (Sender (Info empty_event)) (SenderAlt (Info empty_event)))
       = ''5551234567''
   \<and> handleMessage no_client ''20260101_000000'' empty_event empty_store
       = \<lparr>chats = [\<lparr>jid = ''5551234567'', name = Some ''5551234567'',
                    last_message_time = Some 42\<rparr>],
          messages = [], sender_id_aliases = []\<rparr>"
proof -
  have a: "extractTextContent (Msg empty_event) = []"
    by (simp add: empty_event_def extractTextContent_def)
  have b: "fst (extractMediaInfo ''20260101_000000'' (Msg empty_event)) = []"
    by (simp add: empty_event_def extractMediaInfo_def)
  have c: "canonicalizeChatID no_client (ToNonAD (Chat (Info empty_event))) = ''5551234567''"
    by (simp add: empty_event_def contact_jid_def canonicalizeChatID_def canonicalizeSender_def
        ToNonAD_def IsEmpty_def empty_JID_def HiddenUserServer_def DefaultUserServer_def Let_def)
  have d: "getChatName no_client empty_store (ToNonAD (Chat (Info empty_event))) ''5551234567''
             None
             (canonicalizeSender no_client (Sender (Info empty_event))
                (SenderAlt (Info empty_event)))
           = ''5551234567''"
    by (simp add: empty_event_def contact_jid_def getChatName_def resolve_chat_name_def
        canonicalizeSender_def chat_name_def chat_lookup_def empty_store_def no_client_def
        ToNonAD_def IsEmpty_def empty_JID_def HiddenUserServer_def DefaultUserServer_def Let_def)
  show ?thesis
    using empty_live_message_updates_chat_only [OF a b c [symmetric] d [symmetric]] a b c d
    by (simp add: StoreChat_def empty_store_def empty_event_def)
qed

section \<open>Properties of the history sync\<close>






lemma bitlen_powi:
  assumes "0 < a"
  shows "(2::rat) powi (bitlen a - 1) \<le> of_int a \<and> of_int a < (2::rat) powi bitlen a"
proof -
  from assms have b: "2 ^ nat (bitlen a - 1) \<le> a \<and> a < 2 ^ nat (bitlen a)" by (rule bitlen_bounds)
  from assms have "bitlen a \<noteq> 0" by (simp add: bitlen_eq_zero_iff)
  with bitlen_nonneg [of a] have p: "0 < bitlen a" by simp
  have "(of_int (2 ^ nat (bitlen a - 1)) :: rat) \<le> of_int a" using b by (simp only: of_int_le_iff)
  moreover have "(of_int a :: rat) < of_int (2 ^ nat (bitlen a))" using b by (simp only: of_int_less_iff)
  ultimately show ?thesis using p by (simp add: power_int_def)
qed

lemma ilog2_bounds:
  assumes "0 < q"
  shows "2 powi ilog2 q \<le> q \<and> q < 2 powi (ilog2 q + 1)"
proof -
  obtain a b where ab: "quotient_of q = (a, b)" by (cases "quotient_of q")
  then have bpos: "0 < b" by (rule quotient_of_denom_pos)
  from ab have q: "q = of_int a / of_int b" by (rule quotient_of_div)
  with assms bpos have apos: "0 < a" by (simp add: zero_less_divide_iff)
  note A = bitlen_powi [OF apos] and B = bitlen_powi [OF bpos]
  have bq: "(0::rat) < of_int b" using bpos by simp
  have up: "q < 2 powi (bitlen a - bitlen b + 1)"
  proof -
    have "of_int a < (2::rat) powi bitlen a" using A by simp
    also have "\<dots> = 2 powi (bitlen a - bitlen b + 1) * 2 powi (bitlen b - 1)"
      by (simp add: power_int_add [symmetric])
    also have "\<dots> \<le> 2 powi (bitlen a - bitlen b + 1) * of_int b"
      using B by (intro mult_left_mono) simp_all
    finally show ?thesis using bq by (simp add: q pos_divide_less_eq)
  qed
  have lo: "2 powi (bitlen a - bitlen b - 1) \<le> q"
  proof -
    have "(2::rat) powi (bitlen a - bitlen b - 1) * of_int b \<le> 2 powi (bitlen a - bitlen b - 1) * 2 powi bitlen b"
      using B by (intro mult_left_mono) simp_all
    also have "\<dots> = 2 powi (bitlen a - 1)" by (simp add: power_int_add [symmetric])
    also have "\<dots> \<le> of_int a" using A by simp
    finally show ?thesis using bq by (simp add: q pos_le_divide_eq)
  qed
  show ?thesis
  proof (cases "2 powi (bitlen a - bitlen b) \<le> q")
    case True
    then have "ilog2 q = bitlen a - bitlen b" by (simp add: ilog2_def ab Let_def)
    with True up show ?thesis by simp
  next
    case False
    then have "ilog2 q = bitlen a - bitlen b - 1" by (simp add: ilog2_def ab Let_def)
    with False lo show ?thesis by simp
  qed
qed

lemma powi_less_imp: "(2::rat) powi a < 2 powi b \<Longrightarrow> a < b"
proof (rule ccontr)
  assume l: "(2::rat) powi a < 2 powi b" and "\<not> a < b"
  then have "b \<le> a" by simp
  then have "(2::rat) powi b \<le> 2 powi a" by (rule power_int_increasing) simp
  with l show False by simp
qed

lemma ilog2_unique:
  assumes "0 < q" and "2 powi e \<le> q" and "q < 2 powi (e + 1)"
  shows "ilog2 q = e"
proof -
  from ilog2_bounds [OF assms(1)] have b: "2 powi ilog2 q \<le> q" "q < 2 powi (ilog2 q + 1)" by simp_all
  from b(1) assms(3) have "(2::rat) powi ilog2 q < 2 powi (e + 1)" by simp
  then have "ilog2 q < e + 1" by (rule powi_less_imp)
  moreover from assms(2) b(2) have "(2::rat) powi e < 2 powi (ilog2 q + 1)" by simp
  then have "e < ilog2 q + 1" by (rule powi_less_imp)
  ultimately show ?thesis by simp
qed





























section \<open>Properties of the control plane\<close>
















end
